theory Spec2Isabelle
  imports Main
begin

section \<open>Python strings and paths\<close>

text \<open>
  A Python \<open>str\<close> is a sequence of Unicode code points, so it is modelled as a list of
  natural numbers. \<open>lit\<close> turns an ASCII literal of the source into such a string.
\<close>

type_synonym py_str = "nat list"

definition lit :: "string \<Rightarrow> py_str" where
  "lit cs = map of_char cs"

definition startswith :: "py_str \<Rightarrow> py_str \<Rightarrow> bool" where
  "startswith s p = (take (length p) s = p)"

definition endswith :: "py_str \<Rightarrow> py_str \<Rightarrow> bool" where
  "endswith s p = (length p \<le> length s \<and> drop (length s - length p) s = p)"

text \<open>
  \<open>str.strip()\<close> with no argument removes leading and trailing white space, which for
  \<open>str\<close> is the set of code points CPython's \<open>Py_UNICODE_ISSPACE\<close> accepts.
\<close>

definition py_isspace :: "nat \<Rightarrow> bool" where
  "py_isspace c =
     ((9 \<le> c \<and> c \<le> 13) \<or> (28 \<le> c \<and> c \<le> 32) \<or> c = 133 \<or> c = 160 \<or> c = 5760
      \<or> (8192 \<le> c \<and> c \<le> 8202) \<or> c = 8232 \<or> c = 8233 \<or> c = 8239 \<or> c = 8287
      \<or> c = 12288)"

definition strip :: "py_str \<Rightarrow> py_str" where
  "strip s = rev (dropWhile py_isspace (rev (dropWhile py_isspace s)))"

text \<open>
  \<open>os.path.join(a, b)\<close> of \<open>posixpath\<close> for two arguments: an absolute \<open>b\<close> replaces
  \<open>a\<close>; otherwise \<open>b\<close> is appended, after a separator unless \<open>a\<close> is empty or already
  ends with one.
\<close>

definition sep :: py_str where
  "sep = lit ''/''"

definition os_path_join :: "py_str \<Rightarrow> py_str \<Rightarrow> py_str" where
  "os_path_join a b =
     (if startswith b sep then b
      else if a = [] \<or> endswith a sep then a @ b
      else a @ sep @ b)"

section \<open>Exceptions and values\<close>

text \<open>
  The source catches with \<open>except Exception\<close>. \<open>SystemExit\<close> and \<open>KeyboardInterrupt\<close>
  derive from \<open>BaseException\<close> only, so such a handler lets them through.
\<close>

datatype exn =
    OSError | UnicodeDecodeError | ImportError | AttributeError | TypeError
  | SyntaxError | RuntimeError | SystemExit | KeyboardInterrupt

fun is_Exception :: "exn \<Rightarrow> bool" where
  "is_Exception SystemExit = False"
| "is_Exception KeyboardInterrupt = False"
| "is_Exception _ = True"

text \<open>
  Values a module attribute can hold, as far as the source looks at them: whether the
  value is callable, what calling it with no argument does, and whether a result is a
  \<open>str\<close>.
\<close>

datatype pyval = PyStr py_str | PyInt int | PyNone | PyCallable "exn + pyval"

fun callable :: "pyval \<Rightarrow> bool" where
  "callable (PyCallable r) = True"
| "callable v = False"

fun call :: "pyval \<Rightarrow> exn + pyval" where
  "call (PyCallable r) = r"
| "call v = Inl TypeError"

section \<open>The file system\<close>

text \<open>
  What executing a source file as the top-level code of a fresh module does: it raises
  (\<open>Inl\<close>) or completes, leaving a namespace (\<open>Inr\<close>); \<open>registers_self\<close> tells whether
  the code stores the module being executed in \<open>sys.modules\<close> under its own name.
  Entry points are taken to terminate and to affect nothing else.
\<close>

record program =
  outcome :: "exn + (py_str \<rightharpoonup> pyval)"
  registers_self :: bool

text \<open>
  A directory lists its entries. A file has its decoded text (what \<open>f.read()\<close> returns
  for \<open>open(p, 'r', encoding='utf-8')\<close>; \<open>None\<close> when opening or decoding raises) and its
  behaviour as a program. Access rights on directories are not modelled.
\<close>

datatype node = Dir "py_str list" | File "py_str option" program

type_synonym filesystem = "py_str \<rightharpoonup> node"

definition os_path_exists :: "filesystem \<Rightarrow> py_str \<Rightarrow> bool" where
  "os_path_exists fs p = (case fs p of None \<Rightarrow> False | Some n \<Rightarrow> True)"

definition os_path_isdir :: "filesystem \<Rightarrow> py_str \<Rightarrow> bool" where
  "os_path_isdir fs p = (case fs p of Some (Dir es) \<Rightarrow> True | _ \<Rightarrow> False)"

definition os_path_isfile :: "filesystem \<Rightarrow> py_str \<Rightarrow> bool" where
  "os_path_isfile fs p = (case fs p of Some (File t c) \<Rightarrow> True | _ \<Rightarrow> False)"

definition os_listdir :: "filesystem \<Rightarrow> py_str \<Rightarrow> exn + py_str list" where
  "os_listdir fs p = (case fs p of Some (Dir es) \<Rightarrow> Inr es | _ \<Rightarrow> Inl OSError)"

definition read_text :: "filesystem \<Rightarrow> py_str \<Rightarrow> exn + py_str" where
  "read_text fs p =
     (case fs p of
        Some (File (Some t) c) \<Rightarrow> Inr t
      | Some (File None c) \<Rightarrow> Inl UnicodeDecodeError
      | _ \<Rightarrow> Inl OSError)"

section \<open>Modules and the interpreter state\<close>

record module_spec =
  spec_name :: py_str
  origin :: py_str

text \<open>
  A module object: its identity, its \<open>__name__\<close> (the name of the spec it was made
  from) and its namespace.
\<close>

record py_module =
  mod_id :: nat
  mod_name :: py_str
  attrs :: "py_str \<rightharpoonup> pyval"

text \<open>
  The interpreter state: the next unused object identity, \<open>sys.modules\<close> (module name to
  the identity of the registered module object) and the log of \<open>exec_module\<close> runs
  (file executed, identity of the module it ran in), oldest first.
\<close>

record interp =
  next_id :: nat
  sys_modules :: "py_str \<rightharpoonup> nat"
  executed :: "(py_str \<times> nat) list"

definition wf_interp :: "interp \<Rightarrow> bool" where
  "wf_interp s = (\<forall>i \<in> ran (sys_modules s) \<union> snd ` set (executed s). i < next_id s)"

text \<open>
  \<open>importlib.util.spec_from_file_location(name, location)\<close> with no loader given picks a
  loader by the suffix of the location (extension modules, source files, bytecode files;
  on Linux every extension suffix ends in \<open>.so\<close>) and returns \<open>None\<close> when none fits.
  It does not look at the file.
\<close>

definition supported_suffixes :: "py_str list" where
  "supported_suffixes = [lit ''.so'', lit ''.py'', lit ''.pyc'']"

definition spec_from_file_location :: "py_str \<Rightarrow> py_str \<Rightarrow> module_spec option" where
  "spec_from_file_location nm location =
     (if list_ex (endswith location) supported_suffixes
      then Some \<lparr>spec_name = nm, origin = location\<rparr> else None)"

text \<open>
  \<open>importlib.util.module_from_spec(spec)\<close> makes a new module object, named after the
  spec. It does not put the module into \<open>sys.modules\<close>.
\<close>

definition module_from_spec :: "module_spec \<Rightarrow> interp \<Rightarrow> py_module \<times> interp" where
  "module_from_spec sp s =
     (\<lparr>mod_id = next_id s, mod_name = spec_name sp, attrs = Map.empty\<rparr>,
      s\<lparr>next_id := Suc (next_id s)\<rparr>)"

text \<open>
  \<open>spec.loader.exec_module(module)\<close>: the loader of the spec reads the file at the
  spec's location and runs it in the module's namespace; a location that is no file
  raises \<open>OSError\<close>. The module is updated in place in Python; here the updated module is
  returned.
\<close>

definition exec_module ::
  "filesystem \<Rightarrow> module_spec \<Rightarrow> py_module \<Rightarrow> interp \<Rightarrow> (exn + py_module) \<times> interp" where
  "exec_module fs sp m s =
     (case fs (origin sp) of
        Some (File t p) \<Rightarrow>
          (let s1 = s\<lparr>executed := executed s @ [(origin sp, mod_id m)]\<rparr>;
               s2 = (if registers_self p
                     then s1\<lparr>sys_modules := (sys_modules s1)(mod_name m \<mapsto> mod_id m)\<rparr>
                     else s1)
           in case outcome p of
                Inl e \<Rightarrow> (Inl e, s2)
              | Inr ns \<Rightarrow> (Inr (m\<lparr>attrs := ns\<rparr>), s2))
      | _ \<Rightarrow> (Inl OSError, s))"

text \<open>
  \<open>importlib.reload(module)\<close> raises \<open>ImportError\<close> unless \<open>sys.modules\<close> holds this very
  module object under the module's name. Past that check it looks the name up again on
  the interpreter's import path and re-executes what it finds in the namespace of the
  same module object. What is found depends on the import path and not on this
  repository, so the outcome of that step (an exception, or the namespace afterwards) is
  the parameter \<open>reimport\<close>.
\<close>

type_synonym reimporter = "py_module \<Rightarrow> exn + (py_str \<rightharpoonup> pyval)"

definition importlib_reload :: "reimporter \<Rightarrow> py_module \<Rightarrow> interp \<Rightarrow> exn + py_module" where
  "importlib_reload reimport m s =
     (if sys_modules s (mod_name m) \<noteq> Some (mod_id m) then Inl ImportError
      else case reimport m of
             Inl e \<Rightarrow> Inl e
           | Inr ns \<Rightarrow> Inr (m\<lparr>attrs := ns\<rparr>))"

definition hasattr :: "py_module \<Rightarrow> py_str \<Rightarrow> bool" where
  "hasattr m f = (case attrs m f of None \<Rightarrow> False | Some v \<Rightarrow> True)"

definition call_attr :: "py_module \<Rightarrow> py_str \<Rightarrow> exn + pyval" where
  "call_attr m f = (case attrs m f of None \<Rightarrow> Inl AttributeError | Some v \<Rightarrow> call v)"

section \<open>gemini5.py\<close>

definition REQUIRED_FUNCTIONS :: "py_str list" where
  "REQUIRED_FUNCTIONS = [lit ''get_description'', lit ''pre_proc'', lit ''main_proc'', lit ''post_proc'']"

record TaskModuleInfo =
  name :: py_str
  description :: py_str
  main_py_path :: py_str
  module_id :: py_str

text \<open>The loop over \<open>REQUIRED_FUNCTIONS\<close> in \<open>load_task_module\<close>, leaving at the first failure.\<close>

fun check_required :: "py_str list \<Rightarrow> py_module \<Rightarrow> bool" where
  "check_required [] m = True"
| "check_required (func_name # rest) m =
     (case attrs m func_name of
        None \<Rightarrow> False
      | Some v \<Rightarrow> if \<not> callable v then False else check_required rest m)"

text \<open>
  \<open>load_task_module\<close>: \<open>Inr None\<close> is the returned \<open>None\<close>, \<open>Inr (Some m)\<close> the returned
  module, \<open>Inl e\<close> an exception that leaves the function. The handler is
  \<open>except Exception\<close>. Printing is left out.
\<close>

definition load_task_module ::
  "filesystem \<Rightarrow> TaskModuleInfo \<Rightarrow> interp \<Rightarrow> (exn + py_module option) \<times> interp" where
  "load_task_module fs task_info s =
     (case spec_from_file_location (module_id task_info) (main_py_path task_info) of
        None \<Rightarrow> (Inr None, s)
      | Some sp \<Rightarrow>
          (case module_from_spec sp s of
             (module0, s1) \<Rightarrow>
               (case exec_module fs sp module0 s1 of
                  (Inl e, s2) \<Rightarrow> if is_Exception e then (Inr None, s2) else (Inl e, s2)
                | (Inr module, s2) \<Rightarrow>
                    if check_required REQUIRED_FUNCTIONS module then (Inr (Some module), s2)
                    else (Inr None, s2))))"

text \<open>The loop of \<open>get_task_info_list\<close> over the directory listing.\<close>

fun task_info_loop ::
  "filesystem \<Rightarrow> py_str \<Rightarrow> py_str list \<Rightarrow> TaskModuleInfo list \<Rightarrow> exn + TaskModuleInfo list" where
  "task_info_loop fs task_folder [] task_infos = Inr task_infos"
| "task_info_loop fs task_folder (subdir_name # rest) task_infos =
     (let subdir_path = os_path_join task_folder subdir_name;
          main_py = os_path_join subdir_path (lit ''main.py'');
          name_txt = os_path_join subdir_path (lit ''name.txt'')
      in if \<not> os_path_exists fs main_py \<or> \<not> os_path_exists fs name_txt
         then task_info_loop fs task_folder rest task_infos
         else
           (case read_text fs name_txt of
              Inl e \<Rightarrow>
                if is_Exception e then task_info_loop fs task_folder rest task_infos
                else Inl e
            | Inr content \<Rightarrow>
                (let descr = strip content
                 in if descr = [] then task_info_loop fs task_folder rest task_infos
                    else task_info_loop fs task_folder rest
                           (task_infos @
                            [\<lparr>name = subdir_name, description = descr,
                              main_py_path = main_py,
                              module_id = subdir_name @ lit ''_main''\<rparr>]))))"

definition get_task_info_list :: "filesystem \<Rightarrow> py_str \<Rightarrow> exn + TaskModuleInfo list" where
  "get_task_info_list fs task_folder =
     (if \<not> os_path_isdir fs task_folder then Inr []
      else case os_listdir fs task_folder of
             Inl e \<Rightarrow> Inl e
           | Inr entries \<Rightarrow> task_info_loop fs task_folder entries [])"

section \<open>load_module.py\<close>

definition required_funcs :: "py_str list" where
  "required_funcs = [lit ''pre_proc'', lit ''post_proc'', lit ''main_proc'', lit ''get_name'']"

text \<open>
  The inner \<open>try\<close> of \<open>get_task_module\<close>: call \<open>module.get_name()\<close> and keep the module
  when the result is a \<open>str\<close>. \<open>Inr None\<close> is \<open>continue\<close>.
\<close>

definition task_name_of :: "py_module \<Rightarrow> exn + (py_str \<times> py_module) option" where
  "task_name_of m =
     (case call_attr m (lit ''get_name'') of
        Inl e \<Rightarrow> if is_Exception e then Inr None else Inl e
      | Inr (PyStr task_name) \<Rightarrow> Inr (Some (task_name, m))
      | Inr v \<Rightarrow> Inr None)"

text \<open>The body of the outer \<open>try\<close>, before its handler.\<close>

definition try_entry ::
  "reimporter \<Rightarrow> filesystem \<Rightarrow> py_str \<Rightarrow> py_str \<Rightarrow> interp
     \<Rightarrow> (exn + (py_str \<times> py_module) option) \<times> interp" where
  "try_entry reimport fs entry main_file s =
     (case spec_from_file_location entry main_file of
        None \<Rightarrow> (Inr None, s)
      | Some sp \<Rightarrow>
          (case module_from_spec sp s of
             (module0, s1) \<Rightarrow>
               (case exec_module fs sp module0 s1 of
                  (Inl e, s2) \<Rightarrow> (Inl e, s2)
                | (Inr module1, s2) \<Rightarrow>
                    (case importlib_reload reimport module1 s2 of
                       Inl e \<Rightarrow> (Inl e, s2)
                     | Inr module \<Rightarrow>
                         if \<not> list_all (hasattr module) required_funcs then (Inr None, s2)
                         else (task_name_of module, s2)))))"

text \<open>
  One pass of the \<open>for\<close> loop for one directory entry: \<open>Inr None\<close> is \<open>continue\<close>,
  \<open>Inr (Some (task_name, module))\<close> the pair appended to the two lists, \<open>Inl e\<close> an
  exception the handler \<open>except Exception\<close> does not catch.
\<close>

definition visit_entry ::
  "reimporter \<Rightarrow> filesystem \<Rightarrow> py_str \<Rightarrow> py_str \<Rightarrow> interp
     \<Rightarrow> (exn + (py_str \<times> py_module) option) \<times> interp" where
  "visit_entry reimport fs task_path entry s =
     (let folder_path = os_path_join task_path entry
      in if \<not> os_path_isdir fs folder_path then (Inr None, s)
         else
           (let main_file = os_path_join folder_path (lit ''main.py'')
            in if \<not> os_path_isfile fs main_file then (Inr None, s)
               else
                 (case try_entry reimport fs entry main_file s of
                    (Inl e, s') \<Rightarrow> if is_Exception e then (Inr None, s') else (Inl e, s')
                  | (Inr r, s') \<Rightarrow> (Inr r, s'))))"

fun task_module_loop ::
  "reimporter \<Rightarrow> filesystem \<Rightarrow> py_str \<Rightarrow> py_str list
     \<Rightarrow> py_str list \<Rightarrow> py_module list \<Rightarrow> interp
     \<Rightarrow> (exn + py_str list \<times> py_module list) \<times> interp" where
  "task_module_loop reimport fs task_path [] task_names modules s =
     (Inr (task_names, modules), s)"
| "task_module_loop reimport fs task_path (entry # rest) task_names modules s =
     (case visit_entry reimport fs task_path entry s of
        (Inl e, s') \<Rightarrow> (Inl e, s')
      | (Inr None, s') \<Rightarrow> task_module_loop reimport fs task_path rest task_names modules s'
      | (Inr (Some (task_name, module)), s') \<Rightarrow>
          task_module_loop reimport fs task_path rest
            (task_names @ [task_name]) (modules @ [module]) s')"

definition get_task_module ::
  "reimporter \<Rightarrow> filesystem \<Rightarrow> py_str \<Rightarrow> interp
     \<Rightarrow> (exn + py_str list \<times> py_module list) \<times> interp" where
  "get_task_module reimport fs task_path s =
     (case os_listdir fs task_path of
        Inl e \<Rightarrow> (Inl e, s)
      | Inr entries \<Rightarrow> task_module_loop reimport fs task_path entries [] [] s)"

section \<open>Candidates\<close>

definition main_file_of :: "py_str \<Rightarrow> py_str \<Rightarrow> py_str" where
  "main_file_of task_path entry = os_path_join (os_path_join task_path entry) (lit ''main.py'')"

definition name_txt_of :: "py_str \<Rightarrow> py_str \<Rightarrow> py_str" where
  "name_txt_of task_folder subdir_name =
     os_path_join (os_path_join task_folder subdir_name) (lit ''name.txt'')"

text \<open>
  A descriptor agrees with the sidecar of its subdirectory: the sidecar can be read, and
  the description is its stripped text and is not empty.
\<close>

definition info_from_sidecar :: "filesystem \<Rightarrow> py_str \<Rightarrow> TaskModuleInfo \<Rightarrow> bool" where
  "info_from_sidecar fs task_folder i =
     (case read_text fs (name_txt_of task_folder (name i)) of
        Inl e \<Rightarrow> False
      | Inr content \<Rightarrow> description i = strip content \<and> description i \<noteq> [])"


section \<open>Example directories\<close>

definition hook :: pyval where
  "hook = PyCallable (Inr PyNone)"

definition alpha_ns :: "py_str \<rightharpoonup> pyval" where
  "alpha_ns =
     [lit ''pre_proc'' \<mapsto> hook, lit ''post_proc'' \<mapsto> hook, lit ''main_proc'' \<mapsto> hook,
      lit ''get_name'' \<mapsto> PyCallable (Inr (PyStr (lit ''Alpha Task'')))]"

definition described_ns :: "py_str \<rightharpoonup> pyval" where
  "described_ns =
     [lit ''get_description'' \<mapsto> PyCallable (Inr (PyStr (lit ''Alpha Task''))),
      lit ''pre_proc'' \<mapsto> hook, lit ''main_proc'' \<mapsto> hook, lit ''post_proc'' \<mapsto> hook]"

definition revised_ns :: "py_str \<rightharpoonup> pyval" where
  "revised_ns =
     [lit ''get_description'' \<mapsto> PyCallable (Inr (PyStr (lit ''Alpha Task, revised''))),
      lit ''pre_proc'' \<mapsto> hook, lit ''main_proc'' \<mapsto> hook, lit ''post_proc'' \<mapsto> hook]"

definition gamma_ns :: "py_str \<rightharpoonup> pyval" where
  "gamma_ns =
     [lit ''pre_proc'' \<mapsto> PyInt 5, lit ''post_proc'' \<mapsto> hook, lit ''main_proc'' \<mapsto> hook,
      lit ''get_name'' \<mapsto> PyCallable (Inr (PyStr (lit ''Gamma Task'')))]"

definition alpha_plugin :: program where
  "alpha_plugin = \<lparr>outcome = Inr alpha_ns, registers_self = False\<rparr>"

definition described_plugin :: program where
  "described_plugin = \<lparr>outcome = Inr described_ns, registers_self = False\<rparr>"

definition revised_plugin :: program where
  "revised_plugin = \<lparr>outcome = Inr revised_ns, registers_self = False\<rparr>"

definition corrupt_plugin :: program where
  "corrupt_plugin = \<lparr>outcome = Inl SyntaxError, registers_self = False\<rparr>"

definition exit_plugin :: program where
  "exit_plugin = \<lparr>outcome = Inl SystemExit, registers_self = False\<rparr>"

definition alpha_registered :: program where
  "alpha_registered = \<lparr>outcome = Inr alpha_ns, registers_self = True\<rparr>"

definition described_registered :: program where
  "described_registered = \<lparr>outcome = Inr described_ns, registers_self = True\<rparr>"

definition gamma_registered :: program where
  "gamma_registered = \<lparr>outcome = Inr gamma_ns, registers_self = True\<rparr>"

text \<open>
  An entry point given by its behaviour. No function of the repository reads the text of
  a \<open>main.py\<close>, so the examples leave it out.
\<close>

definition entry_point :: "program \<Rightarrow> node" where
  "entry_point p = File None p"

definition alpha_sidecar :: py_str where
  "alpha_sidecar = lit '' Alpha Task'' @ [10]"

definition blank_sidecar :: py_str where
  "blank_sidecar = [32, 9, 160, 12288, 10]"

definition fs_one :: filesystem where
  "fs_one =
     [lit ''tasks'' \<mapsto> Dir [lit ''task_A''],
      lit ''tasks/task_A'' \<mapsto> Dir [lit ''main.py''],
      lit ''tasks/task_A/main.py'' \<mapsto> entry_point alpha_plugin]"

definition fs_two :: filesystem where
  "fs_two =
     [lit ''tasks'' \<mapsto> Dir [lit ''task_A'', lit ''task_B''],
      lit ''tasks/task_A'' \<mapsto> Dir [lit ''main.py''],
      lit ''tasks/task_A/main.py'' \<mapsto> entry_point alpha_plugin,
      lit ''tasks/task_B'' \<mapsto> Dir [lit ''main.py''],
      lit ''tasks/task_B/main.py'' \<mapsto> entry_point corrupt_plugin]"


definition fs_reg :: filesystem where
  "fs_reg =
     [lit ''tasks'' \<mapsto> Dir [lit ''task_A'', lit ''task_B'', lit ''task_C''],
      lit ''tasks/task_A'' \<mapsto> Dir [lit ''main.py''],
      lit ''tasks/task_A/main.py'' \<mapsto> entry_point alpha_registered,
      lit ''tasks/task_B'' \<mapsto> Dir [lit ''main.py''],
      lit ''tasks/task_B/main.py'' \<mapsto> entry_point described_registered,
      lit ''tasks/task_C'' \<mapsto> Dir [lit ''main.py''],
      lit ''tasks/task_C/main.py'' \<mapsto> entry_point gamma_registered]"

definition fs_meta :: filesystem where
  "fs_meta =
     [lit ''tasks'' \<mapsto> Dir [lit ''task_A'', lit ''task_B''],
      lit ''tasks/task_A'' \<mapsto> Dir [lit ''main.py'', lit ''name.txt''],
      lit ''tasks/task_A/main.py'' \<mapsto> entry_point described_plugin,
      lit ''tasks/task_A/name.txt'' \<mapsto> File (Some alpha_sidecar) corrupt_plugin,
      lit ''tasks/task_B'' \<mapsto> Dir [lit ''main.py'', lit ''name.txt''],
      lit ''tasks/task_B/main.py'' \<mapsto> entry_point described_plugin,
      lit ''tasks/task_B/name.txt'' \<mapsto> File (Some blank_sidecar) corrupt_plugin]"


definition info_A :: TaskModuleInfo where
  "info_A =
     \<lparr>name = lit ''task_A'', description = lit ''Alpha Task'',
      main_py_path = lit ''tasks/task_A/main.py'', module_id = lit ''task_A_main''\<rparr>"

definition info_B :: TaskModuleInfo where
  "info_B =
     \<lparr>name = lit ''task_B'', description = lit ''Beta Task'',
      main_py_path = lit ''tasks/task_B/main.py'', module_id = lit ''task_B_main''\<rparr>"


definition interp0 :: interp where
  "interp0 = \<lparr>next_id = 0, sys_modules = Map.empty, executed = []\<rparr>"

text \<open>
  A reload that finds the name again but has nothing to re-execute (the directory of the
  entry taken as a namespace package): the namespace stays as it is.
\<close>

definition keep_namespace :: reimporter where
  "keep_namespace m = Inr (attrs m)"





definition unit_A :: py_module where
  "unit_A = \<lparr>mod_id = 0, mod_name = lit ''task_A'', attrs = alpha_ns\<rparr>"

definition unit_C :: py_module where
  "unit_C = \<lparr>mod_id = 2, mod_name = lit ''task_C'', attrs = gamma_ns\<rparr>"

section \<open>Metadata-first discovery\<close>

lemma os_path_isdir_iff_listdir:
  "os_path_isdir fs p \<longleftrightarrow> (\<exists>entries. os_listdir fs p = Inr entries)"
  by (auto simp: os_path_isdir_def os_listdir_def split: option.splits node.splits)

lemma strip_eq_Nil_iff: "strip s = [] \<longleftrightarrow> (\<forall>c \<in> set s. py_isspace c)"
proof -
  have "strip s = [] \<longleftrightarrow> dropWhile py_isspace (rev (dropWhile py_isspace s)) = []"
    by (simp add: strip_def)
  also have "\<dots> \<longleftrightarrow> (\<forall>c \<in> set (dropWhile py_isspace s). py_isspace c)"
    by (simp only: dropWhile_eq_Nil_conv set_rev)
  also have "\<dots> \<longleftrightarrow> dropWhile py_isspace s = []"
    using hd_dropWhile [of py_isspace s]
    by (cases "dropWhile py_isspace s") (auto dest: set_dropWhileD)
  also have "\<dots> \<longleftrightarrow> (\<forall>c \<in> set s. py_isspace c)"
    by (simp only: dropWhile_eq_Nil_conv)
  finally show ?thesis .
qed

lemma read_text_error_is_Exception: "read_text fs p = Inl e \<Longrightarrow> is_Exception e"
  by (auto simp: read_text_def split: option.splits node.splits)

lemma task_info_loop_step:
  assumes "task_info_loop fs task_folder (subdir_name # rest) acc = Inr infos"
  shows "task_info_loop fs task_folder rest acc = Inr infos \<or>
         (\<exists>content. read_text fs (name_txt_of task_folder subdir_name) = Inr content \<and>
            strip content \<noteq> [] \<and>
            task_info_loop fs task_folder rest
              (acc @ [\<lparr>name = subdir_name, description = strip content,
                      main_py_path = main_file_of task_folder subdir_name,
                      module_id = subdir_name @ lit ''_main''\<rparr>]) = Inr infos)"
proof (cases "read_text fs (name_txt_of task_folder subdir_name)")
  case (Inl e)
  with assms show ?thesis
    by (simp add: Let_def name_txt_of_def main_file_of_def split: if_splits)
next
  case (Inr content)
  with assms show ?thesis
    by (simp add: Let_def name_txt_of_def main_file_of_def split: if_splits)
qed

lemma task_info_loop_from_sidecar:
  assumes "task_info_loop fs task_folder entries acc = Inr infos"
    and "\<forall>i \<in> set acc. info_from_sidecar fs task_folder i"
  shows "\<forall>i \<in> set infos. info_from_sidecar fs task_folder i"
  using assms
proof (induction entries arbitrary: acc)
  case Nil
  then show ?case by simp
next
  case (Cons subdir_name rest)
  from task_info_loop_step [OF Cons.prems(1)] show ?case
  proof (elim disjE exE conjE)
    assume "task_info_loop fs task_folder rest acc = Inr infos"
    from Cons.IH [OF this Cons.prems(2)] show ?thesis .
  next
    fix content
    let ?i = "\<lparr>name = subdir_name, description = strip content,
               main_py_path = main_file_of task_folder subdir_name,
               module_id = subdir_name @ lit ''_main''\<rparr>"
    assume c: "read_text fs (name_txt_of task_folder subdir_name) = Inr content"
      "strip content \<noteq> []"
    assume l: "task_info_loop fs task_folder rest (acc @ [?i]) = Inr infos"
    from c have "info_from_sidecar fs task_folder ?i"
      by (simp add: info_from_sidecar_def)
    with Cons.prems(2) have "\<forall>i \<in> set (acc @ [?i]). info_from_sidecar fs task_folder i"
      by simp
    from Cons.IH [OF l this] show ?thesis .
  qed
qed

lemma task_info_loop_returns:
  "\<exists>infos. task_info_loop fs task_folder entries acc = Inr infos"
proof (induction entries arbitrary: acc)
  case Nil
  show ?case by simp
next
  case (Cons subdir_name rest)
  show ?case
  proof (cases "read_text fs (name_txt_of task_folder subdir_name)")
    case (Inl e)
    with read_text_error_is_Exception [OF Inl] Cons [of acc] show ?thesis
      by (simp add: Let_def name_txt_of_def)
  next
    case (Inr content)
    with Cons [of acc]
      Cons [of "acc @ [\<lparr>name = subdir_name, description = strip content,
                  main_py_path = os_path_join (os_path_join task_folder subdir_name) (lit ''main.py''),
                  module_id = subdir_name @ lit ''_main''\<rparr>]"]
    show ?thesis
      by (simp add: Let_def name_txt_of_def)
  qed
qed

lemma get_task_info_list_returns:
  "\<exists>infos. get_task_info_list fs task_folder = Inr infos"
  using task_info_loop_returns [of fs task_folder _ "[]"]
  by (auto simp: get_task_info_list_def os_path_isdir_iff_listdir split: sum.splits)


text \<open>
  Claim C7. \<open>get_task_info_list\<close> returns a list, and every descriptor in it has a
  description that is not empty and is the stripped text of the \<open>name.txt\<close> of its
  subdirectory; a subdirectory whose \<open>name.txt\<close> holds white space only has no
  descriptor in the list.
\<close>

theorem identity_nonempty:
  "\<exists>infos. get_task_info_list fs task_folder = Inr infos \<and>
     (\<forall>i \<in> set infos. info_from_sidecar fs task_folder i) \<and>
     (\<forall>d content. read_text fs (name_txt_of task_folder d) = Inr content \<and>
          (\<forall>c \<in> set content. py_isspace c) \<longrightarrow> d \<notin> name ` set infos)"
proof -
  from get_task_info_list_returns obtain infos where
    r: "get_task_info_list fs task_folder = Inr infos" by blast
  have a: "\<forall>i \<in> set infos. info_from_sidecar fs task_folder i"
  proof (cases "os_path_isdir fs task_folder")
    case False
    with r show ?thesis by (simp add: get_task_info_list_def)
  next
    case True
    with r obtain entries where "task_info_loop fs task_folder entries [] = Inr infos"
      by (auto simp: get_task_info_list_def split: sum.splits)
    from task_info_loop_from_sidecar [OF this] show ?thesis by simp
  qed
  have b: "d \<notin> name ` set infos"
    if "read_text fs (name_txt_of task_folder d) = Inr content"
      and "\<forall>c \<in> set content. py_isspace c"
    for d content
  proof
    assume "d \<in> name ` set infos"
    then obtain i where "i \<in> set infos" "name i = d" by auto
    with a that(1) have "strip content \<noteq> []"
      by (auto simp: info_from_sidecar_def)
    with that(2) show False by (simp add: strip_eq_Nil_iff)
  qed
  from r a b show ?thesis by blast
qed

section \<open>The loader\<close>

lemma check_required_iff:
  "check_required fs m \<longleftrightarrow>
     list_all (\<lambda>f. case attrs m f of None \<Rightarrow> False | Some v \<Rightarrow> callable v) fs"
  by (induction fs) (auto split: option.splits)

lemmas load_unfold = load_task_module_def spec_from_file_location_def module_from_spec_def
  exec_module_def Let_def

lemma load_task_module_Some:
  assumes "load_task_module fs info s = (Inr (Some m), s')"
  shows "\<exists>t p. fs (main_py_path info) = Some (File t p) \<and> outcome p = Inr (attrs m) \<and>
           check_required REQUIRED_FUNCTIONS m \<and>
           mod_id m = next_id s \<and> mod_name m = module_id info \<and>
           next_id s' = Suc (next_id s) \<and>
           executed s' = executed s @ [(main_py_path info, next_id s)] \<and>
           sys_modules s' =
             (if registers_self p then (sys_modules s)(module_id info \<mapsto> next_id s)
              else sys_modules s)"
proof -
  from assms obtain t p where f: "fs (main_py_path info) = Some (File t p)"
    by (auto simp: load_unfold split: option.splits node.splits if_splits)
  from assms f have "outcome p = Inr (attrs m) \<and>
           check_required REQUIRED_FUNCTIONS m \<and>
           mod_id m = next_id s \<and> mod_name m = module_id info \<and>
           next_id s' = Suc (next_id s) \<and>
           executed s' = executed s @ [(main_py_path info, next_id s)] \<and>
           sys_modules s' =
             (if registers_self p then (sys_modules s)(module_id info \<mapsto> next_id s)
              else sys_modules s)"
    by (auto simp: load_unfold split: sum.splits if_splits)
  with f show ?thesis by blast
qed



lemma load_task_module_at_most_once:
  "executed (snd (load_task_module fs info s)) = executed s \<or>
   executed (snd (load_task_module fs info s)) = executed s @ [(main_py_path info, next_id s)]"
  by (auto simp: load_task_module_def spec_from_file_location_def module_from_spec_def
        exec_module_def Let_def
      split: option.splits node.splits sum.splits if_splits prod.splits)

section \<open>Eager discovery and load\<close>

lemma task_name_of_Some:
  "task_name_of m = Inr (Some (n, m')) \<Longrightarrow>
     m' = m \<and> call_attr m (lit ''get_name'') = Inr (PyStr n)"
  by (auto simp: task_name_of_def split: sum.splits pyval.splits if_splits)

lemma importlib_reload_Inr:
  "importlib_reload reimport m s = Inr m' \<Longrightarrow>
     sys_modules s (mod_name m) = Some (mod_id m) \<and> reimport m = Inr (attrs m') \<and>
     mod_id m' = mod_id m \<and> mod_name m' = mod_name m"
  by (auto simp: importlib_reload_def split: if_splits sum.splits)

lemma try_entry_Some:
  assumes "try_entry reimport fs entry main_file s = (Inr (Some (n, m)), s')"
  shows "mod_name m = entry \<and> mod_id m = next_id s \<and>
         list_all (hasattr m) required_funcs \<and>
         call_attr m (lit ''get_name'') = Inr (PyStr n) \<and>
         (\<exists>t p ns. fs main_file = Some (File t p) \<and> outcome p = Inr ns \<and>
            reimport \<lparr>mod_id = next_id s, mod_name = entry, attrs = ns\<rparr> = Inr (attrs m))"
proof -
  from assms obtain sp where sp: "spec_from_file_location entry main_file = Some sp"
    by (auto simp: try_entry_def split: option.splits)
  then have sp_eq: "sp = \<lparr>spec_name = entry, origin = main_file\<rparr>"
    by (auto simp: spec_from_file_location_def split: if_splits)
  from assms sp obtain m1 s2 where
    ex: "exec_module fs sp \<lparr>mod_id = next_id s, mod_name = entry, attrs = Map.empty\<rparr>
           (s\<lparr>next_id := Suc (next_id s)\<rparr>) = (Inr m1, s2)"
    by (auto simp: try_entry_def module_from_spec_def sp_eq split: prod.splits sum.splits)
  from ex obtain t p ns where f: "fs main_file = Some (File t p)" "outcome p = Inr ns"
    and m1: "m1 = \<lparr>mod_id = next_id s, mod_name = entry, attrs = ns\<rparr>"
    by (auto simp: exec_module_def sp_eq Let_def split: option.splits node.splits sum.splits)
  from assms sp ex obtain m2 where
    rl: "importlib_reload reimport m1 s2 = Inr m2"
    and ck: "list_all (hasattr m2) required_funcs"
    and tn: "task_name_of m2 = Inr (Some (n, m))"
    by (auto simp: try_entry_def module_from_spec_def sp_eq split: sum.splits if_splits)
  from task_name_of_Some [OF tn] have mm: "m = m2"
    and cg: "call_attr m2 (lit ''get_name'') = Inr (PyStr n)" by simp_all
  from importlib_reload_Inr [OF rl] m1 have
    "reimport \<lparr>mod_id = next_id s, mod_name = entry, attrs = ns\<rparr> = Inr (attrs m2)"
    "mod_id m2 = next_id s" "mod_name m2 = entry" by simp_all
  with f ck cg mm show ?thesis by blast
qed

lemma visit_entry_Some:
  assumes "visit_entry reimport fs task_path entry s = (Inr (Some (n, m)), s')"
  shows "mod_name m = entry \<and> mod_id m = next_id s \<and>
         list_all (hasattr m) required_funcs \<and>
         call_attr m (lit ''get_name'') = Inr (PyStr n) \<and>
         (\<exists>t p ns. fs (main_file_of task_path entry) = Some (File t p) \<and> outcome p = Inr ns \<and>
            reimport \<lparr>mod_id = next_id s, mod_name = entry, attrs = ns\<rparr> = Inr (attrs m))"
proof -
  from assms obtain s0 where
    "try_entry reimport fs entry (main_file_of task_path entry) s = (Inr (Some (n, m)), s0)"
    by (auto simp: visit_entry_def main_file_of_def Let_def
        split: if_splits prod.splits sum.splits)
  from try_entry_Some [OF this] show ?thesis .
qed

lemma task_module_loop_invariant:
  assumes "task_module_loop reimport fs task_path entries ns ms s = (Inr (ns', ms'), s')"
    and "length ns = length ms"
    and "list_all2 P ns ms"
    and "\<And>entry s0 n m s1.
           visit_entry reimport fs task_path entry s0 = (Inr (Some (n, m)), s1) \<Longrightarrow> P n m"
  shows "list_all2 P ns' ms'"
  using assms
proof (induction entries arbitrary: ns ms s)
  case Nil
  then show ?case by simp
next
  case (Cons entry rest)
  obtain r s1 where v: "visit_entry reimport fs task_path entry s = (r, s1)"
    by (cases "visit_entry reimport fs task_path entry s")
  show ?case
  proof (cases r)
    case (Inl e)
    with Cons.prems(1) v show ?thesis by simp
  next
    case (Inr x)
    show ?thesis
    proof (cases x)
      case None
      with Inr v Cons.prems(1) have
        "task_module_loop reimport fs task_path rest ns ms s1 = (Inr (ns', ms'), s')" by simp
      from Cons.IH [OF this Cons.prems(2,3,4)] show ?thesis .
    next
      case (Some nm)
      obtain n m where nm: "nm = (n, m)" by (cases nm)
      with Some Inr v Cons.prems(1) have l:
        "task_module_loop reimport fs task_path rest (ns @ [n]) (ms @ [m]) s1 = (Inr (ns', ms'), s')"
        by simp
      from v Inr Some nm have "P n m" using Cons.prems(4) [of entry s n m s1] by simp
      with Cons.prems(3) have p: "list_all2 P (ns @ [n]) (ms @ [m])"
        by (simp add: list_all2_appendI)
      from Cons.prems(2) have "length (ns @ [n]) = length (ms @ [m])" by simp
      from Cons.IH [OF l this p Cons.prems(4)] show ?thesis .
    qed
  qed
qed

lemma get_task_module_invariant:
  assumes "fst (get_task_module reimport fs task_path s) = Inr (task_names, modules)"
    and "\<And>entry s0 n m s1.
           visit_entry reimport fs task_path entry s0 = (Inr (Some (n, m)), s1) \<Longrightarrow> P n m"
  shows "list_all2 P task_names modules"
proof -
  from assms(1) obtain entries where
    "fst (task_module_loop reimport fs task_path entries [] [] s) = Inr (task_names, modules)"
    by (auto simp: get_task_module_def split: sum.splits)
  then obtain s' where
    "task_module_loop reimport fs task_path entries [] [] s = (Inr (task_names, modules), s')"
    by (cases "task_module_loop reimport fs task_path entries [] [] s") auto
  from task_module_loop_invariant [OF this, of P] assms(2) show ?thesis by simp
qed






text \<open>
  Claim C10. The two lists \<open>get_task_module\<close> returns have the same length, and the name
  at each index is the string that calling \<open>get_name\<close> of the module at that index
  returns.
\<close>

theorem index_alignment:
  assumes "fst (get_task_module reimport fs task_path s) = Inr (task_names, modules)"
  shows "length task_names = length modules \<and>
         (\<forall>i < length modules.
            call_attr (modules ! i) (lit ''get_name'') = Inr (PyStr (task_names ! i)))"
proof -
  have "list_all2 (\<lambda>n m. call_attr m (lit ''get_name'') = Inr (PyStr n)) task_names modules"
    by (rule get_task_module_invariant [OF assms]) (simp add: visit_entry_Some)
  then show ?thesis by (simp add: list_all2_conv_all_nth)
qed




section \<open>Exceptions, freshness and validation\<close>




lemma load_task_module_validated:
  assumes "load_task_module fs task_info s = (Inr (Some m), s')"
  shows "\<forall>f \<in> set REQUIRED_FUNCTIONS. \<exists>v. attrs m f = Some v \<and> callable v"
  using load_task_module_Some [OF assms]
  by (auto simp: check_required_iff list_all_iff split: option.splits)

lemma get_task_module_hooks_present:
  assumes "fst (get_task_module reimport fs task_path s) = Inr (task_names, modules)"
  shows "\<forall>m \<in> set modules. list_all (hasattr m) required_funcs"
proof -
  have "list_all2 (\<lambda>n m. list_all (hasattr m) required_funcs) task_names modules"
    by (rule get_task_module_invariant [OF assms]) (simp add: visit_entry_Some)
  then show ?thesis
    by (auto simp: list_all2_conv_all_nth in_set_conv_nth)
qed

lemma get_task_info_list_not_dir:
  "\<not> os_path_isdir fs task_folder \<Longrightarrow> get_task_info_list fs task_folder = Inr []"
  by (simp add: get_task_info_list_def)

lemma get_task_module_not_dir:
  "\<not> os_path_isdir fs task_path \<Longrightarrow>
     get_task_module reimport fs task_path s = (Inl OSError, s)"
  by (auto simp: get_task_module_def os_path_isdir_def os_listdir_def
      split: option.splits node.splits)

section \<open>The interpreter invariant and the resolved spec\<close>

lemma wf_interp_exec_module:
  assumes "wf_interp s"
  shows "wf_interp (snd (exec_module fs sp \<lparr>mod_id = next_id s, mod_name = n, attrs = a\<rparr>
                          (s\<lparr>next_id := Suc (next_id s)\<rparr>)))"
proof (cases "fs (origin sp)")
  case None
  with assms show ?thesis
    by (auto simp: exec_module_def wf_interp_def less_Suc_eq)
next
  case (Some nd)
  show ?thesis
  proof (cases nd)
    case (Dir es)
    with Some assms show ?thesis
      by (auto simp: exec_module_def wf_interp_def less_Suc_eq)
  next
    case (File t p)
    with Some assms show ?thesis
      by (cases "outcome p"; cases "registers_self p")
        (auto simp: exec_module_def Let_def wf_interp_def less_Suc_eq ran_def
          split: if_splits)
  qed
qed

lemma wf_interp_load_task_module:
  assumes "wf_interp s"
  shows "wf_interp (snd (load_task_module fs task_info s))"
proof (cases "spec_from_file_location (module_id task_info) (main_py_path task_info)")
  case None
  with assms show ?thesis by (simp add: load_task_module_def)
next
  case (Some sp)
  have "snd (load_task_module fs task_info s) =
        snd (exec_module fs sp \<lparr>mod_id = next_id s, mod_name = spec_name sp, attrs = Map.empty\<rparr>
               (s\<lparr>next_id := Suc (next_id s)\<rparr>))"
    using Some
    by (simp add: load_task_module_def module_from_spec_def split: prod.splits sum.splits)
  with wf_interp_exec_module [OF assms] show ?thesis by simp
qed

lemma wf_interp_try_entry:
  assumes "wf_interp s"
  shows "wf_interp (snd (try_entry reimport fs entry main_file s))"
proof (cases "spec_from_file_location entry main_file")
  case None
  with assms show ?thesis by (simp add: try_entry_def)
next
  case (Some sp)
  have "snd (try_entry reimport fs entry main_file s) =
        snd (exec_module fs sp \<lparr>mod_id = next_id s, mod_name = spec_name sp, attrs = Map.empty\<rparr>
               (s\<lparr>next_id := Suc (next_id s)\<rparr>))"
    using Some
    by (simp add: try_entry_def module_from_spec_def split: prod.splits sum.splits)
  with wf_interp_exec_module [OF assms] show ?thesis by simp
qed

lemma wf_interp_visit_entry:
  assumes "wf_interp s"
  shows "wf_interp (snd (visit_entry reimport fs task_path entry s))"
proof -
  let ?t = "try_entry reimport fs entry
              (os_path_join (os_path_join task_path entry) (lit ''main.py'')) s"
  have "snd (visit_entry reimport fs task_path entry s) = s \<or>
        snd (visit_entry reimport fs task_path entry s) = snd ?t"
    by (cases ?t) (auto simp: visit_entry_def Let_def split: sum.splits)
  with assms wf_interp_try_entry [OF assms] show ?thesis by auto
qed

lemma wf_interp_task_module_loop:
  assumes "wf_interp s"
  shows "wf_interp (snd (task_module_loop reimport fs task_path entries ns ms s))"
  using assms
proof (induction entries arbitrary: ns ms s)
  case Nil
  then show ?case by simp
next
  case (Cons entry rest)
  obtain r s1 where v: "visit_entry reimport fs task_path entry s = (r, s1)"
    by (cases "visit_entry reimport fs task_path entry s")
  with wf_interp_visit_entry [OF Cons.prems, of reimport fs task_path entry]
  have w: "wf_interp s1" by simp
  show ?case
  proof (cases r)
    case (Inl e)
    with v w show ?thesis by simp
  next
    case (Inr x)
    with v Cons.IH [OF w] show ?thesis
      by (cases x) (auto split: prod.splits)
  qed
qed

lemma wf_interp_get_task_module:
  "wf_interp s \<Longrightarrow> wf_interp (snd (get_task_module reimport fs task_path s))"
  using wf_interp_task_module_loop [of s reimport fs task_path _ "[]" "[]"]
  by (auto simp: get_task_module_def split: sum.splits)

text \<open>The loop body of \<open>get_task_module\<close> runs the entry point at most once, in a new module.\<close>

lemma try_entry_runs_once:
  assumes "os_path_isfile fs main_file"
  shows "snd (try_entry reimport fs entry main_file s) = s \<or>
         (next_id (snd (try_entry reimport fs entry main_file s)) = Suc (next_id s) \<and>
          executed (snd (try_entry reimport fs entry main_file s)) =
            executed s @ [(main_file, next_id s)])"
proof (cases "spec_from_file_location entry main_file")
  case None
  then show ?thesis by (simp add: try_entry_def)
next
  case (Some sp)
  then have sp: "sp = \<lparr>spec_name = entry, origin = main_file\<rparr>"
    by (auto simp: spec_from_file_location_def split: if_splits)
  from assms obtain t p where f: "fs main_file = Some (File t p)"
    by (auto simp: os_path_isfile_def split: option.splits node.splits)
  have "snd (try_entry reimport fs entry main_file s) =
        snd (exec_module fs sp \<lparr>mod_id = next_id s, mod_name = entry, attrs = Map.empty\<rparr>
               (s\<lparr>next_id := Suc (next_id s)\<rparr>))"
    using Some sp
    by (simp add: try_entry_def module_from_spec_def split: prod.splits sum.splits)
  with f sp show ?thesis
    by (cases "outcome p") (simp_all add: exec_module_def Let_def)
qed

lemma visit_entry_runs_once:
  "snd (visit_entry reimport fs task_path entry s) = s \<or>
   (next_id (snd (visit_entry reimport fs task_path entry s)) = Suc (next_id s) \<and>
    executed (snd (visit_entry reimport fs task_path entry s)) =
      executed s @ [(main_file_of task_path entry, next_id s)])"
proof (cases "os_path_isdir fs (os_path_join task_path entry) \<and>
              os_path_isfile fs (main_file_of task_path entry)")
  case False
  then show ?thesis
    by (auto simp: visit_entry_def main_file_of_def Let_def)
next
  case True
  let ?t = "try_entry reimport fs entry (main_file_of task_path entry) s"
  from True have "snd (visit_entry reimport fs task_path entry s) = snd ?t"
    by (cases ?t) (auto simp: visit_entry_def main_file_of_def Let_def split: sum.splits)
  with try_entry_runs_once [of fs "main_file_of task_path entry" reimport entry s] True
  show ?thesis by simp
qed

lemma join_main_py_endswith:
  "endswith (os_path_join d (lit ''main.py'')) (lit ''.py'')"
  by (simp add: os_path_join_def endswith_def startswith_def sep_def lit_def)

lemma spec_for_main_file:
  "spec_from_file_location nm (os_path_join d (lit ''main.py'')) =
     Some \<lparr>spec_name = nm, origin = os_path_join d (lit ''main.py'')\<rparr>"
  using join_main_py_endswith [of d]
  by (simp add: spec_from_file_location_def supported_suffixes_def)

lemma load_task_module_exactly_once:
  assumes "os_path_isfile fs (main_py_path task_info)"
    and "list_ex (endswith (main_py_path task_info)) supported_suffixes"
  shows "executed (snd (load_task_module fs task_info s)) =
           executed s @ [(main_py_path task_info, next_id s)]"
  using assms
  by (auto simp: load_unfold os_path_isfile_def split: option.splits node.splits sum.splits)

section \<open>The example directories, evaluated\<close>

lemmas path_defs = lit_def os_path_join_def startswith_def endswith_def sep_def
  main_file_of_def name_txt_of_def
lemmas fs_defs = os_path_isdir_def os_path_isfile_def os_path_exists_def os_listdir_def
  read_text_def entry_point_def
lemmas loader_defs = load_task_module_def spec_from_file_location_def supported_suffixes_def
  module_from_spec_def exec_module_def importlib_reload_def interp0_def Let_def
lemmas eager_defs = get_task_module_def visit_entry_def try_entry_def task_name_of_def
  hasattr_def call_attr_def required_funcs_def
lemmas plugin_defs = alpha_plugin_def described_plugin_def revised_plugin_def
  corrupt_plugin_def exit_plugin_def alpha_registered_def described_registered_def
  gamma_registered_def

lemma fs_meta_listing:
  "get_task_info_list fs_meta (lit ''tasks'') = Inr [info_A]"
  by (simp add: get_task_info_list_def fs_meta_def fs_defs path_defs Let_def strip_def
        py_isspace_def alpha_sidecar_def blank_sidecar_def info_A_def)

lemma fs_meta_blank:
  "read_text fs_meta (name_txt_of (lit ''tasks'') (lit ''task_B'')) = Inr blank_sidecar"
  by (simp add: fs_meta_def fs_defs path_defs)

lemma blank_sidecar_space: "list_all py_isspace blank_sidecar"
  by (simp add: blank_sidecar_def py_isspace_def)

theorem identity_nonempty_witness:
  "get_task_info_list fs_meta (lit ''tasks'') = Inr [info_A] \<and>
   info_from_sidecar fs_meta (lit ''tasks'') info_A \<and>
   description info_A = lit ''Alpha Task'' \<and>
   read_text fs_meta (name_txt_of (lit ''tasks'') (lit ''task_B'')) = Inr blank_sidecar \<and>
   list_all py_isspace blank_sidecar \<and>
   lit ''task_B'' \<notin> name ` set [info_A]"
proof -
  have w: "\<forall>c \<in> set blank_sidecar. py_isspace c"
    using blank_sidecar_space by (simp add: list_all_iff)
  from identity_nonempty [of fs_meta "lit ''tasks''"] obtain infos where
    r: "get_task_info_list fs_meta (lit ''tasks'') = Inr infos"
    and a: "\<forall>i \<in> set infos. info_from_sidecar fs_meta (lit ''tasks'') i"
    and b: "\<forall>d content.
              read_text fs_meta (name_txt_of (lit ''tasks'') d) = Inr content \<and>
              (\<forall>c \<in> set content. py_isspace c) \<longrightarrow> d \<notin> name ` set infos"
    by blast
  from r fs_meta_listing have i: "infos = [info_A]" by simp
  from a i have "info_from_sidecar fs_meta (lit ''tasks'') info_A" by simp
  moreover from b fs_meta_blank w i have "lit ''task_B'' \<notin> name ` set [info_A]"
    by blast
  ultimately show ?thesis
    using fs_meta_listing fs_meta_blank blank_sidecar_space by (simp add: info_A_def)
qed

lemma fs_one_eager:
  "fst (get_task_module reimport fs_one (lit ''tasks'') interp0) = Inr ([], [])"
  by (simp add: eager_defs loader_defs fs_defs path_defs fs_one_def plugin_defs)

lemma fs_two_eager:
  "fst (get_task_module reimport fs_two (lit ''tasks'') interp0) = Inr ([], [])"
  by (simp add: eager_defs loader_defs fs_defs path_defs fs_two_def plugin_defs)


lemma fs_reg_eager:
  "fst (get_task_module keep_namespace fs_reg (lit ''tasks'') interp0) =
     Inr ([lit ''Alpha Task'', lit ''Gamma Task''], [unit_A, unit_C])"
  by (simp add: eager_defs loader_defs fs_defs path_defs fs_reg_def plugin_defs
        keep_namespace_def alpha_ns_def gamma_ns_def described_ns_def unit_A_def unit_C_def)




lemma fs_two_load_B:
  "fst (load_task_module fs_two info_B interp0) = Inr None"
  by (simp add: loader_defs fs_defs path_defs fs_two_def plugin_defs info_B_def)

lemma fs_two_load_A:
  "fst (load_task_module fs_two info_A interp0) = Inr None"
  by (simp add: loader_defs fs_defs path_defs fs_two_def plugin_defs info_A_def
       REQUIRED_FUNCTIONS_def alpha_ns_def hook_def)

lemma fs_two_file_A:
  "fs_two (main_py_path info_A) = Some (File None alpha_plugin)"
  by (simp add: fs_two_def info_A_def lit_def entry_point_def)

lemma fs_two_file_B:
  "fs_two (main_py_path info_B) = Some (File None corrupt_plugin)"
  by (simp add: fs_two_def info_B_def lit_def entry_point_def)





lemma alpha_ns_valid:
  "list_all (\<lambda>f. case alpha_ns f of None \<Rightarrow> False | Some v \<Rightarrow> callable v) required_funcs \<and>
   call_attr unit_A (lit ''get_name'') = Inr (PyStr (lit ''Alpha Task''))"
  by (simp add: required_funcs_def alpha_ns_def hook_def lit_def call_attr_def unit_A_def)

section \<open>The claims on the example directories\<close>

text \<open>
  Claim C1 (it fails on the code). \<open>tasks\<close> holds two candidates: \<open>task_A\<close>, whose entry
  point defines the four hooks as callables and whose \<open>get_name\<close> returns a \<open>str\<close>, and
  \<open>task_B\<close>, whose entry point raises \<open>SyntaxError\<close>. The claim asks for one loaded
  plugin; \<open>get_task_module\<close> returns none, because \<open>importlib.reload\<close> raises
  \<open>ImportError\<close> for \<open>task_A\<close>, which is not in \<open>sys.modules\<close>.
\<close>

theorem isolation_lost_to_reload:
  "list_all (\<lambda>f. case alpha_ns f of None \<Rightarrow> False | Some v \<Rightarrow> callable v) required_funcs \<and>
   call_attr unit_A (lit ''get_name'') = Inr (PyStr (lit ''Alpha Task'')) \<and>
   fs_two (main_py_path info_A) = Some (File None alpha_plugin) \<and>
   fs_two (main_py_path info_B) = Some (File None corrupt_plugin) \<and>
   fst (get_task_module reimport fs_two (lit ''tasks'') interp0) = Inr ([], [])"
  using alpha_ns_valid fs_two_file_A fs_two_file_B fs_two_eager [of reimport] by simp

text \<open>
  Claim C2 (it fails on the code). \<open>tasks\<close> holds the single candidate \<open>task_A\<close> with the
  four hooks and a \<open>get_name\<close> that returns a \<open>str\<close>; \<open>get_task_module\<close> returns no pair
  for it.
\<close>

theorem valid_plugin_not_returned:
  "fs_one (main_file_of (lit ''tasks'') (lit ''task_A'')) = Some (File None alpha_plugin) \<and>
   outcome alpha_plugin = Inr alpha_ns \<and>
   list_all (\<lambda>f. case alpha_ns f of None \<Rightarrow> False | Some v \<Rightarrow> callable v) required_funcs \<and>
   call_attr unit_A (lit ''get_name'') = Inr (PyStr (lit ''Alpha Task'')) \<and>
   fst (get_task_module reimport fs_one (lit ''tasks'') interp0) = Inr ([], [])"
  using alpha_ns_valid fs_one_eager [of reimport]
  by (simp add: fs_one_def path_defs entry_point_def alpha_plugin_def)



text \<open>
  Claim C4 (it fails on the code for \<open>get_task_module\<close>). For a path that does not exist,
  \<open>get_task_info_list\<close> returns an empty list, and \<open>get_task_module\<close> raises the
  \<open>OSError\<close> of \<open>os.listdir\<close>, which it calls outside any \<open>try\<close>.
\<close>

theorem missing_path_raises:
  "fs_one (lit ''missing'') = None \<and>
   get_task_info_list fs_one (lit ''missing'') = Inr [] \<and>
   get_task_module reimport fs_one (lit ''missing'') interp0 = (Inl OSError, interp0)"
proof -
  have n: "fs_one (lit ''missing'') = None"
    by (simp add: fs_one_def lit_def)
  then have d: "\<not> os_path_isdir fs_one (lit ''missing'')"
    by (simp add: os_path_isdir_def)
  from n get_task_info_list_not_dir [OF d] get_task_module_not_dir [OF d]
  show ?thesis by simp
qed


text \<open>
  Claim C6 (it fails on the code for \<open>get_task_module\<close>). The entry point of \<open>task_C\<close>
  binds \<open>pre_proc\<close> to the integer 5 and stores its module in \<open>sys.modules\<close>; the reload
  finds the name and re-executes nothing. \<open>get_task_module\<close> checks \<open>hasattr\<close> only, so
  the module is returned although its \<open>pre_proc\<close> cannot be called.
\<close>

theorem eager_returns_uncallable_hook:
  "fst (get_task_module keep_namespace fs_reg (lit ''tasks'') interp0) =
     Inr ([lit ''Alpha Task'', lit ''Gamma Task''], [unit_A, unit_C]) \<and>
   attrs unit_C (lit ''pre_proc'') = Some (PyInt 5) \<and>
   \<not> callable (PyInt 5)"
  using fs_reg_eager by (simp add: unit_C_def gamma_ns_def lit_def)




theorem index_alignment_witness:
  "fst (get_task_module keep_namespace fs_reg (lit ''tasks'') interp0) =
     Inr ([lit ''Alpha Task'', lit ''Gamma Task''], [unit_A, unit_C]) \<and>
   length [lit ''Alpha Task'', lit ''Gamma Task''] = length [unit_A, unit_C] \<and>
   call_attr unit_A (lit ''get_name'') = Inr (PyStr (lit ''Alpha Task'')) \<and>
   call_attr unit_C (lit ''get_name'') = Inr (PyStr (lit ''Gamma Task''))"
proof -
  from index_alignment [OF fs_reg_eager] have
    a: "\<forall>i < length [unit_A, unit_C].
          call_attr ([unit_A, unit_C] ! i) (lit ''get_name'') =
            Inr (PyStr ([lit ''Alpha Task'', lit ''Gamma Task''] ! i))"
    by blast
  from a [rule_format, of 0] a [rule_format, of 1] fs_reg_eager show ?thesis by simp
qed

end
